theory Spec2Isabelle
  imports Complex_Main "HOL-Library.List_Lexorder" "HOL-Library.Char_ord"
begin

section \<open>Exceptions and numbers\<close>

text \<open>
  The service is Python. Every exception the modelled code can raise is a value of
  \<open>error\<close>; a function that may raise returns \<open>error + 'a\<close>, with \<open>Inl\<close> the exception.
  \<open>HTTPException\<close> carries the status code and the detail text. \<open>ParseError\<close> stands for
  whatever the csv, json and pydantic libraries raise on a malformed member of an archive.

  Python floats are modelled as real numbers: the rounding error of binary floating point,
  infinities and NaN are outside the model. Every concrete evaluation below stays far away
  from a rounding boundary (the margins are stated where they matter).
\<close>

datatype error =
    HTTPException nat string
  | TypeError
  | ValueError
  | ZeroDivisionError
  | BadZipFile
  | ParseError string

text \<open>
  \<open>round(x)\<close> with one argument: the nearest integer, a tie going to the even neighbour.
\<close>

definition py_round :: "real \<Rightarrow> int" where
  "py_round x =
     (let f = \<lfloor>x\<rfloor>; d = x - of_int f
      in if d < 1/2 then f else if 1/2 < d then f + 1 else if even f then f else f + 1)"

text \<open>
  \<open>round(x, n)\<close>: the nearest multiple of \<open>10\<^sup>-\<^sup>n\<close>, ties to even.
\<close>

definition round_ndigits :: "real \<Rightarrow> nat \<Rightarrow> real" where
  "round_ndigits x n = of_int (py_round (x * 10 ^ n)) / 10 ^ n"

section \<open>The market-impact price (main.py, \<open>s_curve_price\<close>)\<close>

text \<open>
  \<^verbatim>\<open>
  def s_curve_price(prev_close, order_qty, adv, k=4.0, half_adv=0.1):
      x = (abs(order_qty) / (half_adv * max(adv, 1.0)))
      impact = 1.0 / (1.0 + np.exp(-k*(x-1.0)))
      signed = impact if order_qty > 0 else -impact
      return round(prev_close * (1 + 0.002 * signed), 4)
  \<close>
  The division raises \<open>ZeroDivisionError\<close> when the divisor is zero. The two defaulted
  parameters are explicit arguments of the model.
\<close>

definition s_curve_price :: "real \<Rightarrow> int \<Rightarrow> real \<Rightarrow> real \<Rightarrow> real \<Rightarrow> error + real" where
  "s_curve_price prev_close order_qty adv k half_adv =
     (let d = half_adv * max adv 1
      in if d = 0 then Inl ZeroDivisionError
         else let x = of_int \<bar>order_qty\<bar> / d;
                  impact = 1 / (1 + exp (- k * (x - 1)));
                  signed = (if order_qty > 0 then impact else - impact)
              in Inr (round_ndigits (prev_close * (1 + 2/1000 * signed)) 4))"

section \<open>Records of the data provider (judge\_client.py)\<close>

text \<open>
  The pydantic models. Several of them have fields of the same name in the source
  (\<open>ticker\<close>, \<open>date\<close>, \<open>accountId\<close>, \<open>qty\<close>); \<open>PriceBar\<close> and \<open>Order\<close> keep the
  plain names and the others carry a prefix. \<open>Client.preferences\<close> is the empty
  dictionary in every client this code builds and is left out.
\<close>

record Client =
  clientId :: string
  segment :: string
  riskProfile :: string

record Holding =
  holding_accountId :: string
  holding_ticker :: string
  holding_qty :: int

record IndexConstituent =
  index_ticker :: string
  weight :: real
  sector :: string

record PriceBar =
  date :: string
  ticker :: string
  close :: real
  adv :: "real option"

record SentimentRecord =
  senti_date :: string
  senti_ticker :: string
  label :: string
  score :: real
  source :: "string option"

section \<open>Requests and responses (main.py)\<close>

record RebalanceFilter =
  accountIds :: "string list option"
  minCashPct :: real
  maxSecurityWeight :: real
  maxSectorWeight :: real

record RebalanceRequest =
  asOf :: string
  filters :: RebalanceFilter
  sentimentWeight :: real
  riskTargetVol :: "real option"

record Order =
  accountId :: string
  order_ticker :: string
  side :: string
  qty :: int
  execPrice :: real
  ts :: string

record RebalanceResponse =
  requestId :: string
  orders :: "Order list"

text \<open>The dictionary \<open>ack\<close> returns; \<open>received\<close> is flattened into two fields.\<close>

record AckResponse =
  status :: string
  duplicate :: bool
  received_requestId :: string
  received_orders :: nat

text \<open>
  The dictionary \<open>ingest_upload\<close> returns. The early return on a known key has the
  field \<open>idempotent\<close> and no \<open>parsed\<close>; the full path has \<open>parsed\<close> and no
  \<open>idempotent\<close>.
\<close>

record IngestResponse =
  datasetVersion :: string
  checksum :: string
  receivedFiles :: "string list"
  ingest_asOf :: "string option"
  idempotent :: "bool option"
  parsed_prices_csv :: "bool option"

section \<open>The process state\<close>

text \<open>
  The module-level dictionaries of main.py and the mutable fixture lists of
  judge\_client.py.
\<close>

record state =
  INGESTED_CHECKSUMS :: "string \<rightharpoonup> string"
  REBALANCE_RESULTS :: "string \<rightharpoonup> RebalanceResponse"
  ACKED_REQUESTS :: "string \<rightharpoonup> bool"
  STUB_CLIENTS :: "Client list"
  STUB_HOLDINGS :: "Holding list"
  STUB_INDEX :: "IndexConstituent list"
  STUB_PRICES :: "PriceBar list"
  STUB_SENTIMENT :: "SentimentRecord list"

definition init_state :: state where
  "init_state =
     \<lparr>INGESTED_CHECKSUMS = Map.empty,
      REBALANCE_RESULTS = Map.empty,
      ACKED_REQUESTS = Map.empty,
      STUB_CLIENTS =
        [\<lparr>clientId = ''C001'', segment = ''retail'', riskProfile = ''balanced''\<rparr>,
         \<lparr>clientId = ''C002'', segment = ''retail'', riskProfile = ''conservative''\<rparr>,
         \<lparr>clientId = ''C003'', segment = ''hni'', riskProfile = ''growth''\<rparr>,
         \<lparr>clientId = ''C004'', segment = ''retail'', riskProfile = ''balanced''\<rparr>],
      STUB_HOLDINGS =
        [\<lparr>holding_accountId = ''C001'', holding_ticker = ''AAPL'', holding_qty = 120\<rparr>,
         \<lparr>holding_accountId = ''C001'', holding_ticker = ''MSFT'', holding_qty = 80\<rparr>,
         \<lparr>holding_accountId = ''C002'', holding_ticker = ''V'', holding_qty = 50\<rparr>,
         \<lparr>holding_accountId = ''C003'', holding_ticker = ''NVDA'', holding_qty = 30\<rparr>,
         \<lparr>holding_accountId = ''C004'', holding_ticker = ''TSLA'', holding_qty = 20\<rparr>,
         \<lparr>holding_accountId = ''C004'', holding_ticker = ''AAPL'', holding_qty = 15\<rparr>],
      STUB_INDEX =
        [\<lparr>index_ticker = ''AAPL'', weight = 35/1000, sector = ''Information Technology''\<rparr>,
         \<lparr>index_ticker = ''MSFT'', weight = 40/1000, sector = ''Information Technology''\<rparr>,
         \<lparr>index_ticker = ''NVDA'', weight = 30/1000, sector = ''Information Technology''\<rparr>,
         \<lparr>index_ticker = ''AMZN'', weight = 28/1000, sector = ''Consumer Discretionary''\<rparr>,
         \<lparr>index_ticker = ''TSLA'', weight = 20/1000, sector = ''Consumer Discretionary''\<rparr>,
         \<lparr>index_ticker = ''V'', weight = 18/1000, sector = ''Financials''\<rparr>],
      STUB_PRICES =
        [\<lparr>date = ''2025-08-25'', ticker = ''AAPL'', close = 22713/100, adv = Some 82000000\<rparr>,
         \<lparr>date = ''2025-08-25'', ticker = ''MSFT'', close = 43055/100, adv = Some 25000000\<rparr>,
         \<lparr>date = ''2025-08-25'', ticker = ''NVDA'', close = 11622/100, adv = Some 60000000\<rparr>,
         \<lparr>date = ''2025-08-25'', ticker = ''AMZN'', close = 17140/100, adv = Some 50000000\<rparr>,
         \<lparr>date = ''2025-08-25'', ticker = ''TSLA'', close = 23865/100, adv = Some 150000000\<rparr>,
         \<lparr>date = ''2025-08-25'', ticker = ''V'', close = 27890/100, adv = Some 7000000\<rparr>],
      STUB_SENTIMENT =
        [\<lparr>senti_date = ''2025-08-25'', senti_ticker = ''AAPL'', label = ''pos'',
          score = 78/100, source = Some ''https://news.example/a''\<rparr>,
         \<lparr>senti_date = ''2025-08-25'', senti_ticker = ''TSLA'', label = ''neg'',
          score = 66/100, source = Some ''https://news.example/b''\<rparr>,
         \<lparr>senti_date = ''2025-08-25'', senti_ticker = ''MSFT'', label = ''neu'',
          score = 52/100, source = Some ''https://news.example/c''\<rparr>]\<rparr>"

section \<open>Strings and truthiness\<close>

text \<open>
  An \<open>Optional[str]\<close> is falsy when it is \<open>None\<close> or the empty string. Strings are
  8-bit characters here; the digit and case functions are the ASCII ones.
\<close>

definition truthy :: "string option \<Rightarrow> bool" where
  "truthy s = (case s of None \<Rightarrow> False | Some t \<Rightarrow> t \<noteq> [])"

definition is_digit_char :: "char \<Rightarrow> bool" where
  "is_digit_char c = (CHR ''0'' \<le> c \<and> c \<le> CHR ''9'')"

definition isdigit :: "string \<Rightarrow> bool" where
  "isdigit s = (s \<noteq> [] \<and> list_all is_digit_char s)"

definition int_of_digits :: "string \<Rightarrow> nat" where
  "int_of_digits s = foldl (\<lambda>n c. 10 * n + (of_char c - 48)) 0 s"

definition digit_char :: "nat \<Rightarrow> char" where
  "digit_char d = ''0123456789'' ! d"

fun str_nat :: "nat \<Rightarrow> string" where
  "str_nat n = (if n < 10 then [digit_char n] else str_nat (n div 10) @ [digit_char (n mod 10)])"

definition str_int :: "int \<Rightarrow> string" where
  "str_int i = (if i < 0 then CHR ''-'' # str_nat (nat (- i)) else str_nat (nat i))"

definition upper_char :: "char \<Rightarrow> char" where
  "upper_char c =
     (if CHR ''a'' \<le> c \<and> c \<le> CHR ''z'' then char_of (of_char c - (32::nat)) else c)"

definition upper :: "string \<Rightarrow> string" where
  "upper s = map upper_char s"

section \<open>The data provider in stub mode (judge\_client.py, \<open>RoboJudgeClient\<close>)\<close>

text \<open>
  \<open>RoboJudgeClient.from_env()\<close> is in stub mode unless the environment sets both
  \<open>ROBO_JUDGE_MODE\<close> to something other than \<open>stub\<close> and \<open>ROBO_JUDGE_URL\<close>; the model is
  the stub mode, which reads the fixture lists. The remote mode is an HTTP client.

  \<^verbatim>\<open>
  def list_clients(self, limit=100, cursor=None):
      start = int(cursor) if (cursor or "0").isdigit() else 0
      items = STUB_CLIENTS[start:start+limit]
      next_cursor = str(start+limit) if (start+limit) < len(STUB_CLIENTS) else None
      return {"items": [...], "nextCursor": next_cursor}
  \<close>
  The condition of the first line is evaluated on \<open>cursor or "0"\<close>, the conversion on
  \<open>cursor\<close> itself: with \<open>cursor = None\<close> the condition is \<open>"0".isdigit()\<close>, which holds,
  and \<open>int(None)\<close> raises \<open>TypeError\<close>; with the empty string \<open>int("")\<close> raises
  \<open>ValueError\<close>. The limit is a natural number here (the only call uses the default).
\<close>

definition list_clients ::
  "state \<Rightarrow> nat \<Rightarrow> string option \<Rightarrow> error + (Client list \<times> string option)" where
  "list_clients st limit cursor =
     (case cursor of
        None \<Rightarrow> Inl TypeError
      | Some c \<Rightarrow>
          if c = [] then Inl ValueError
          else
            let start = (if isdigit c then int_of_digits c else 0);
                items = take limit (drop start (STUB_CLIENTS st));
                next_cursor =
                  (if start + limit < length (STUB_CLIENTS st)
                   then Some (str_nat (start + limit)) else None)
            in Inr (items, next_cursor))"

text \<open>
  \<^verbatim>\<open>
  def get_prices(self, date=None, ticker=None):
      return [p.model_dump() for p in STUB_PRICES
              if (not date or p.date == date) and (not ticker or p.ticker == ticker)]
  \<close>
\<close>

definition get_prices :: "state \<Rightarrow> string option \<Rightarrow> string option \<Rightarrow> PriceBar list" where
  "get_prices st date_arg ticker_arg =
     filter (\<lambda>p. (\<not> truthy date_arg \<or> Some (date p) = date_arg) \<and>
                  (\<not> truthy ticker_arg \<or> Some (ticker p) = ticker_arg))
       (STUB_PRICES st)"

text \<open>
  \<^verbatim>\<open>
  def get_sentiment(self, from_date=None, to_date=None, tickers=None):
      tick_set = set([t.upper() for t in tickers]) if tickers else None
      res = [s for s in STUB_SENTIMENT if (not tick_set or s.ticker in tick_set)]
  \<close>
  The two dates are not read in stub mode.
\<close>

definition get_sentiment :: "state \<Rightarrow> string list option \<Rightarrow> SentimentRecord list" where
  "get_sentiment st tickers =
     (case tickers of
        None \<Rightarrow> STUB_SENTIMENT st
      | Some tks \<Rightarrow>
          if tks = [] then STUB_SENTIMENT st
          else filter (\<lambda>s. senti_ticker s \<in> set (map upper tks)) (STUB_SENTIMENT st))"

text \<open>
  \<^verbatim>\<open>
  def find_price(prices, ticker, date=None):
      for p in prices:
          if p["ticker"] == ticker and (date is None or p["date"] == date):
              return PriceBar(**p)
      return None
  \<close>
\<close>

definition find_price :: "PriceBar list \<Rightarrow> string \<Rightarrow> string option \<Rightarrow> PriceBar option" where
  "find_price prices t date_arg =
     find (\<lambda>p. ticker p = t \<and> (date_arg = None \<or> Some (date p) = date_arg)) prices"

section \<open>Rebalance (main.py, \<open>rebalance\<close>)\<close>

text \<open>
  What the handler reads from the wall clock: \<open>current_minute_bucket()\<close>, the value of
  the \<open>i\<close>-th call of \<open>now_iso()\<close> (one per order), and the integer part of
  \<open>datetime.now(timezone.utc).timestamp()\<close>.
\<close>

record clock =
  minute_bucket :: string
  now_iso :: "nat \<Rightarrow> string"
  timestamp :: int

text \<open>
  \<^verbatim>\<open>
  if idempotency_key and idempotency_key in REBALANCE_RESULTS:
      return REBALANCE_RESULTS[idempotency_key]
  \<close>
\<close>

definition cached_result :: "state \<Rightarrow> string option \<Rightarrow> RebalanceResponse option" where
  "cached_result st idempotency_key =
     (case idempotency_key of
        None \<Rightarrow> None
      | Some k \<Rightarrow> if k = [] then None else REBALANCE_RESULTS st k)"

text \<open>
  \<^verbatim>\<open>
  accounts = req.filters.accountIds
  if not accounts:
      clients = judge.list_clients()["items"]
      accounts = [c["clientId"] for c in clients]
  \<close>
  \<open>not accounts\<close> holds for \<open>None\<close> and for the empty list.
\<close>

definition resolve_accounts :: "state \<Rightarrow> string list option \<Rightarrow> error + string list" where
  "resolve_accounts st accounts =
     (let from_clients =
            (case list_clients st 100 None of
               Inl e \<Rightarrow> Inl e
             | Inr (items, next_cursor) \<Rightarrow> Inr (map clientId items))
      in case accounts of
           None \<Rightarrow> from_clients
         | Some accs \<Rightarrow> if accs = [] then from_clients else Inr accs)"

text \<open>
  \<^verbatim>\<open>
  prices_asof = judge.get_prices(date=req.asOf)
  pb = find_price(prices_asof, "AAPL", req.asOf)
  if pb is None:
      prices_any = judge.get_prices()
      pb = find_price(prices_any, "AAPL")
  \<close>
\<close>

definition resolve_price :: "state \<Rightarrow> string \<Rightarrow> PriceBar option" where
  "resolve_price st as_of =
     (case find_price (get_prices st (Some as_of) None) ''AAPL'' (Some as_of) of
        Some pb \<Rightarrow> Some pb
      | None \<Rightarrow> find_price (get_prices st None None) ''AAPL'' None)"

text \<open>
  \<^verbatim>\<open>
  senti = judge.get_sentiment(tickers=["AAPL"])
  senti_aapl = next((s for s in senti if s["ticker"] == "AAPL"), None)
  tilt = ((senti_aapl["score"] - 0.5) * 2) if senti_aapl else 0.0
  \<close>
\<close>

definition sentiment_tilt :: "state \<Rightarrow> real" where
  "sentiment_tilt st =
     (case find (\<lambda>s. senti_ticker s = ''AAPL'') (get_sentiment st (Some [''AAPL''])) of
        None \<Rightarrow> 0
      | Some senti_aapl \<Rightarrow> (score senti_aapl - 1/2) * 2)"

text \<open>
  \<^verbatim>\<open>
  base_qty = 10
  qty_common = max(1, int(round(base_qty * (1 + req.sentimentWeight * tilt))))
  \<close>
\<close>

definition qty_common :: "RebalanceRequest \<Rightarrow> real \<Rightarrow> int" where
  "qty_common req tilt = max 1 (py_round (10 * (1 + sentimentWeight req * tilt)))"

text \<open>\<open>pb.adv or 1_000_000\<close>: the default replaces \<open>None\<close> and zero.\<close>

definition adv_or_default :: "PriceBar \<Rightarrow> real" where
  "adv_or_default pb =
     (case adv pb of None \<Rightarrow> 1000000 | Some a \<Rightarrow> if a = 0 then 1000000 else a)"

text \<open>
  \<^verbatim>\<open>
  for acc in accounts:
      key = "AAPL@" + bucket        # an f-string in the source
      if key not in exec_price_bucket:
          exec_price_bucket[key] = s_curve_price(pb.close, qty_common, pb.adv or 1_000_000)
      orders.append(Order(accountId=acc, ticker="AAPL", side="BUY",
                          qty=qty_common, execPrice=exec_price_bucket[key], ts=now_iso()))
  \<close>
  The loop, with the dictionary \<open>exec_price_bucket\<close>, the list \<open>orders\<close> and the number of
  orders built so far as its state.
\<close>

fun build_orders ::
  "clock \<Rightarrow> PriceBar \<Rightarrow> int \<Rightarrow> string list \<Rightarrow> nat \<Rightarrow> (string \<rightharpoonup> real) \<Rightarrow> Order list
     \<Rightarrow> error + Order list" where
  "build_orders clk pb q [] i exec_price_bucket acc_orders = Inr acc_orders"
| "build_orders clk pb q (acc # accs) i exec_price_bucket acc_orders =
     (let key = ''AAPL@'' @ minute_bucket clk
      in case (case exec_price_bucket key of
                 Some p \<Rightarrow> Inr (exec_price_bucket, p)
               | None \<Rightarrow>
                   (case s_curve_price (close pb) q (adv_or_default pb) 4 (1/10) of
                      Inl e \<Rightarrow> Inl e
                    | Inr p \<Rightarrow> Inr (exec_price_bucket(key \<mapsto> p), p))) of
           Inl e \<Rightarrow> Inl e
         | Inr (bucket', p) \<Rightarrow>
             build_orders clk pb q accs (Suc i) bucket'
               (acc_orders @
                [\<lparr>accountId = acc, order_ticker = ''AAPL'', side = ''BUY'', qty = q,
                  execPrice = p, ts = now_iso clk i\<rparr>]))"

definition no_price_detail :: "string \<Rightarrow> string" where
  "no_price_detail as_of =
     ''No price found for AAPL (asOf='' @ as_of @
     ''). Upload prices via /ingest/upload or configure Robo Judge.''"

text \<open>
  The handler. It returns the state after the call and either the exception or the
  response.
\<close>

definition rebalance ::
  "state \<Rightarrow> clock \<Rightarrow> RebalanceRequest \<Rightarrow> string option
     \<Rightarrow> state \<times> (error + RebalanceResponse)" where
  "rebalance st clk req idempotency_key =
     (case cached_result st idempotency_key of
        Some stored \<Rightarrow> (st, Inr stored)
      | None \<Rightarrow>
          (case resolve_accounts st (accountIds (filters req)) of
             Inl e \<Rightarrow> (st, Inl e)
           | Inr accounts \<Rightarrow>
               (case resolve_price st (asOf req) of
                  None \<Rightarrow> (st, Inl (HTTPException 503 (no_price_detail (asOf req))))
                | Some pb \<Rightarrow>
                    (let tilt = sentiment_tilt st;
                         q = qty_common req tilt
                     in case build_orders clk pb q accounts 0 Map.empty [] of
                          Inl e \<Rightarrow> (st, Inl e)
                        | Inr built \<Rightarrow>
                            (let resp = \<lparr>requestId = ''rb-'' @ str_int (timestamp clk),
                                         orders = built\<rparr>
                             in ((case idempotency_key of
                                    None \<Rightarrow> st
                                  | Some k \<Rightarrow>
                                      if k = [] then st
                                      else st\<lparr>REBALANCE_RESULTS :=
                                                (REBALANCE_RESULTS st)(k \<mapsto> resp)\<rparr>),
                                 Inr resp))))))"

section \<open>Acknowledgement (main.py, \<open>ack\<close>)\<close>

text \<open>
  \<^verbatim>\<open>
  duplicate = ACKED_REQUESTS.get(resp.requestId, False)
  ACKED_REQUESTS[resp.requestId] = True
  return {"status": "ok", "duplicate": duplicate,
          "received": {"requestId": resp.requestId, "orders": len(resp.orders)}}
  \<close>
\<close>

definition ack :: "state \<Rightarrow> RebalanceResponse \<Rightarrow> state \<times> AckResponse" where
  "ack st resp =
     (let dup = (case ACKED_REQUESTS st (requestId resp) of None \<Rightarrow> False | Some b \<Rightarrow> b)
      in (st\<lparr>ACKED_REQUESTS := (ACKED_REQUESTS st)(requestId resp \<mapsto> True)\<rparr>,
          \<lparr>status = ''ok'', duplicate = dup, received_requestId = requestId resp,
           received_orders = length (orders resp)\<rparr>))"

section \<open>Ingestion (main.py, \<open>ingest_upload\<close>)\<close>

text \<open>
  The uploaded blob is modelled by what the handler reads from it: its SHA-256 digest in
  hexadecimal, and what \<open>zipfile.ZipFile\<close> makes of it, namely an exception when the blob
  is no zip archive, or the archive. Of an archive the handler reads the member names and
  five members. Decoding those members is the work of the csv, json and pydantic
  libraries; the model carries its outcome. A csv member is read whole before the fixture
  list is cleared (\<open>rows = _read_csv(name)\<close>), so it is either the exception of that read
  or its rows, and each row is the record the source builds from it or the exception the
  conversion raises. \<open>sentiment.jsonl\<close> is read line by line after the list is cleared,
  so it is only the list of its non-blank lines, each a record or an exception.
\<close>

record zip_archive =
  namelist :: "string list"
  clients_csv :: "error + (error + Client) list"
  holdings_csv :: "error + (error + Holding) list"
  index_csv :: "error + (error + IndexConstituent) list"
  prices_csv :: "error + (error + PriceBar) list"
  sentiment_jsonl :: "(error + SentimentRecord) list"

record upload =
  sha256_hex :: string
  archive :: "error + zip_archive"

text \<open>
  \<open>X.clear()\<close> followed by \<open>for r in rows: X.append(...)\<close>: the list built up to the
  first row that raises, and that exception.
\<close>

fun append_rows :: "(error + 'a) list \<Rightarrow> 'a list \<Rightarrow> 'a list \<times> error option" where
  "append_rows [] acc = (acc, None)"
| "append_rows (Inl e # rs) acc = (acc, Some e)"
| "append_rows (Inr x # rs) acc = append_rows rs (acc @ [x])"

definition load_csv ::
  "bool \<Rightarrow> (error + (error + 'a) list) \<Rightarrow> 'a list \<Rightarrow> 'a list \<times> error option" where
  "load_csv present member old =
     (if \<not> present then (old, None)
      else case member of
             Inl e \<Rightarrow> (old, Some e)
           | Inr rows \<Rightarrow> append_rows rows [])"

definition load_jsonl ::
  "bool \<Rightarrow> (error + 'a) list \<Rightarrow> 'a list \<Rightarrow> 'a list \<times> error option" where
  "load_jsonl present lines old =
     (if \<not> present then (old, None) else append_rows lines [])"

text \<open>
  \<^verbatim>\<open>
  required_any = [{"clients.csv", "holdings.csv", "index.csv", "prices.csv", "sentiment.jsonl"},
                  {"clients.csv", "holdings.csv", "index.csv", "prices.parquet", "sentiment.jsonl"}]
  if not any(req.issubset(names) for req in required_any):
      raise HTTPException(status_code=400, detail=...)
  \<close>
\<close>

definition required_any :: "string list list" where
  "required_any =
     [[''clients.csv'', ''holdings.csv'', ''index.csv'', ''prices.csv'', ''sentiment.jsonl''],
      [''clients.csv'', ''holdings.csv'', ''index.csv'', ''prices.parquet'', ''sentiment.jsonl'']]"

definition has_required :: "string list \<Rightarrow> bool" where
  "has_required names = list_ex (\<lambda>req. list_all (\<lambda>n. n \<in> set names) req) required_any"

text \<open>
  \<open>sorted(names)\<close> of the set of names, and its rendering in the detail text. The
  rendering quotes each name with single quotes; the escapes Python adds for a name that
  itself holds a quote, a backslash or a control character are not modelled.
\<close>

definition sorted_names :: "string list \<Rightarrow> string list" where
  "sorted_names names = sort (remdups names)"

fun join_comma :: "string list \<Rightarrow> string" where
  "join_comma [] = []"
| "join_comma [x] = x"
| "join_comma (x # y # zs) = x @ '', '' @ join_comma (y # zs)"

definition repr_names :: "string list \<Rightarrow> string" where
  "repr_names names = ''['' @ join_comma (map (\<lambda>n. [CHR 39] @ n @ [CHR 39]) names) @ '']''"

definition missing_members_detail :: "string list \<Rightarrow> string" where
  "missing_members_detail names =
     ''Zip must include clients.csv, holdings.csv, index.csv, prices.csv (or prices.parquet), sentiment.jsonl. Found: ''
     @ repr_names (sorted_names names)"

text \<open>
  \<^verbatim>\<open>
  checksum = "sha256:" + hashlib.sha256(blob).hexdigest()
  key = idempotency_key or checksum
  \<close>
\<close>

definition upload_checksum :: "upload \<Rightarrow> string" where
  "upload_checksum up = ''sha256:'' @ sha256_hex up"

definition ingest_key :: "upload \<Rightarrow> string option \<Rightarrow> string" where
  "ingest_key up idempotency_key =
     (case idempotency_key of
        None \<Rightarrow> upload_checksum up
      | Some k \<Rightarrow> if k = [] then upload_checksum up else k)"

text \<open>
  The handler. \<open>now_stamp\<close> is the clock's \<open>strftime('%Y%m%d-%H%M%S')\<close>. An exception
  while a member is loaded leaves the lists replaced so far as they are, since they are
  module-level objects mutated in place.
\<close>

definition ingest_upload ::
  "state \<Rightarrow> upload \<Rightarrow> string option \<Rightarrow> string option \<Rightarrow> string option \<Rightarrow> string
     \<Rightarrow> state \<times> (error + IngestResponse)" where
  "ingest_upload st up as_of sourceId idempotency_key now_stamp =
     (let checksum_v = upload_checksum up;
          key = ingest_key up idempotency_key
      in case INGESTED_CHECKSUMS st key of
           Some version \<Rightarrow>
             (st, Inr \<lparr>datasetVersion = version, checksum = checksum_v, receivedFiles = [],
                       ingest_asOf = as_of, idempotent = Some True,
                       parsed_prices_csv = None\<rparr>)
         | None \<Rightarrow>
             (case archive up of
                Inl e \<Rightarrow> (st, Inl e)
              | Inr zf \<Rightarrow>
                  (let names = namelist zf
                   in if \<not> has_required names
                      then (st, Inl (HTTPException 400 (missing_members_detail names)))
                      else
                        (case load_csv (''clients.csv'' \<in> set names) (clients_csv zf)
                                (STUB_CLIENTS st) of
                           (cs, Some e) \<Rightarrow> (st\<lparr>STUB_CLIENTS := cs\<rparr>, Inl e)
                         | (cs, None) \<Rightarrow>
                        (let st1 = st\<lparr>STUB_CLIENTS := cs\<rparr>
                         in case load_csv (''holdings.csv'' \<in> set names) (holdings_csv zf)
                                   (STUB_HOLDINGS st1) of
                              (hs, Some e) \<Rightarrow> (st1\<lparr>STUB_HOLDINGS := hs\<rparr>, Inl e)
                            | (hs, None) \<Rightarrow>
                        (let st2 = st1\<lparr>STUB_HOLDINGS := hs\<rparr>
                         in case load_csv (''index.csv'' \<in> set names) (index_csv zf)
                                   (STUB_INDEX st2) of
                              (ix, Some e) \<Rightarrow> (st2\<lparr>STUB_INDEX := ix\<rparr>, Inl e)
                            | (ix, None) \<Rightarrow>
                        (let st3 = st2\<lparr>STUB_INDEX := ix\<rparr>
                         in case load_csv (''prices.csv'' \<in> set names) (prices_csv zf)
                                   (STUB_PRICES st3) of
                              (ps, Some e) \<Rightarrow> (st3\<lparr>STUB_PRICES := ps\<rparr>, Inl e)
                            | (ps, None) \<Rightarrow>
                        (let st4 = st3\<lparr>STUB_PRICES := ps\<rparr>;
                             received_prices = (''prices.csv'' \<in> set names)
                         in case load_jsonl (''sentiment.jsonl'' \<in> set names)
                                   (sentiment_jsonl zf) (STUB_SENTIMENT st4) of
                              (ss, Some e) \<Rightarrow> (st4\<lparr>STUB_SENTIMENT := ss\<rparr>, Inl e)
                            | (ss, None) \<Rightarrow>
                        (let st5 = st4\<lparr>STUB_SENTIMENT := ss\<rparr>;
                             dataset_version = ''v'' @ now_stamp
                         in (st5\<lparr>INGESTED_CHECKSUMS :=
                                   (INGESTED_CHECKSUMS st5)(key \<mapsto> dataset_version)\<rparr>,
                             Inr \<lparr>datasetVersion = dataset_version, checksum = checksum_v,
                                  receivedFiles = sorted_names names, ingest_asOf = as_of,
                                  idempotent = None,
                                  parsed_prices_csv = Some received_prices\<rparr>))))))))))"

section \<open>Histories of calls\<close>

text \<open>
  The three handlers that change the state, as calls with their inputs, and the state
  after a history of calls. A call that raises leaves the state as the handler left it.
\<close>

datatype call =
    Ingest upload "string option" "string option" "string option" string
  | Rebalance clock RebalanceRequest "string option"
  | Ack RebalanceResponse

fun step :: "state \<Rightarrow> call \<Rightarrow> state" where
  "step st (Ingest up as_of sourceId idempotency_key now_stamp) =
     fst (ingest_upload st up as_of sourceId idempotency_key now_stamp)"
| "step st (Rebalance clk req idempotency_key) = fst (rebalance st clk req idempotency_key)"
| "step st (Ack resp) = fst (ack st resp)"

definition run :: "state \<Rightarrow> call list \<Rightarrow> state" where
  "run st calls = foldl step st calls"

text \<open>The request identifiers acknowledged in a history, in order.\<close>

fun acked_ids :: "call list \<Rightarrow> string list" where
  "acked_ids [] = []"
| "acked_ids (Ack resp # calls) = requestId resp # acked_ids calls"
| "acked_ids (c # calls) = acked_ids calls"

section \<open>Example inputs\<close>

text \<open>
  Concrete inputs on which the theorems below are evaluated: a clock, a request for the
  date of the built-in fixtures (with a sentiment weight of 0, so that the quantity is the
  base quantity 10), the response the built-in fixtures give for account \<open>C001\<close>, and an
  upload whose member names and price rows are parameters.
\<close>

definition example_clock :: clock where
  "example_clock =
     \<lparr>minute_bucket = ''2025-08-26T09:30:00+00:00'',
      now_iso = (\<lambda>i. ''2025-08-26T09:30:01.000250+00:00''),
      timestamp = 1756200601\<rparr>"

definition example_request :: "string list option \<Rightarrow> RebalanceRequest" where
  "example_request accs =
     \<lparr>asOf = ''2025-08-25'',
      filters = \<lparr>accountIds = accs, minCashPct = 2/100, maxSecurityWeight = 1/10,
                 maxSectorWeight = 25/100\<rparr>,
      sentimentWeight = 0,
      riskTargetVol = None\<rparr>"

definition example_response :: RebalanceResponse where
  "example_response =
     \<lparr>requestId = ''rb-1756200601'',
      orders = [\<lparr>accountId = ''C001'', order_ticker = ''AAPL'', side = ''BUY'', qty = 10,
                 execPrice = 2271382/10000, ts = ''2025-08-26T09:30:01.000250+00:00''\<rparr>]\<rparr>"

definition example_upload :: "string list \<Rightarrow> PriceBar list \<Rightarrow> upload" where
  "example_upload names bars =
     \<lparr>sha256_hex = ''5f70bf18a086007016e948b04aed3b82103a36bea41755b6cddfaf10ace3c6ef'',
      archive = Inr
        \<lparr>namelist = names,
         clients_csv = Inr [Inr \<lparr>clientId = ''C900'', segment = ''retail'', riskProfile = ''growth''\<rparr>],
         holdings_csv = Inr [],
         index_csv = Inr [],
         prices_csv = Inr (map Inr bars),
         sentiment_jsonl =
           [Inr \<lparr>senti_date = ''2025-08-26'', senti_ticker = ''AAPL'', label = ''pos'',
                 score = 2, source = None\<rparr>]\<rparr>\<rparr>"

definition full_names :: "string list" where
  "full_names = [''clients.csv'', ''holdings.csv'', ''index.csv'', ''prices.csv'', ''sentiment.jsonl'']"

definition incomplete_names :: "string list" where
  "incomplete_names = [''clients.csv'', ''holdings.csv'', ''index.csv'', ''prices.csv'']"

definition bar_without_adv :: PriceBar where
  "bar_without_adv = \<lparr>date = ''2025-08-26'', ticker = ''AAPL'', close = 100, adv = None\<rparr>"

definition bar_msft :: PriceBar where
  "bar_msft = \<lparr>date = ''2025-08-26'', ticker = ''MSFT'', close = 43055/100, adv = Some 25000000\<rparr>"

text \<open>The state after one complete upload with the given price rows.\<close>

definition example_ingest :: "PriceBar list \<Rightarrow> call" where
  "example_ingest bars = Ingest (example_upload full_names bars) None None None ''20250826-093500''"

definition ingested_state :: "PriceBar list \<Rightarrow> state" where
  "ingested_state bars = run init_state [example_ingest bars]"

section \<open>Facts about the price\<close>

subsection \<open>Facts about rounding\<close>

lemma py_round_ge_floor: "\<lfloor>x\<rfloor> \<le> py_round x"
  by (simp add: py_round_def Let_def)

lemma py_round_le_floor1: "py_round x \<le> \<lfloor>x\<rfloor> + 1"
  by (simp add: py_round_def Let_def)

lemma py_round_mono:
  assumes "x \<le> y"
  shows "py_round x \<le> py_round y"
proof (cases "\<lfloor>x\<rfloor> = \<lfloor>y\<rfloor>")
  case True
  have "x - of_int \<lfloor>x\<rfloor> \<le> y - of_int \<lfloor>y\<rfloor>"
    using assms True by simp
  then show ?thesis
    unfolding py_round_def Let_def using True by auto
next
  case False
  have "\<lfloor>x\<rfloor> \<le> \<lfloor>y\<rfloor>"
    using assms by (rule floor_mono)
  with False have "\<lfloor>x\<rfloor> + 1 \<le> \<lfloor>y\<rfloor>"
    by simp
  then show ?thesis
    using py_round_le_floor1[of x] py_round_ge_floor[of y] by linarith
qed

lemma py_round_of_int: "py_round (of_int n) = n"
  by (simp add: py_round_def)

lemma py_round_bounds:
  "x - 1/2 \<le> of_int (py_round x) \<and> of_int (py_round x) \<le> x + 1/2"
  unfolding py_round_def Let_def by (auto; linarith)

lemma py_round_eq:
  "of_int n - 1/2 < x \<Longrightarrow> x < of_int n + 1/2 \<Longrightarrow> py_round x = n"
  using py_round_bounds[of x] by linarith

lemma py_round_less: "x < of_int n - 1/2 \<Longrightarrow> py_round x < n"
  using py_round_bounds[of x] by linarith

lemma round_ndigits_mono: "x \<le> y \<Longrightarrow> round_ndigits x n \<le> round_ndigits y n"
  by (simp add: round_ndigits_def py_round_mono divide_right_mono)

subsection \<open>Facts about the sigmoid\<close>

lemma sigmoid_pos: "0 < 1 / (1 + exp (t::real))"
  by (simp add: add_pos_pos)

lemma sigmoid_less_one: "1 / (1 + exp (t::real)) < 1"
  by (simp add: add_pos_pos)

lemma exp_4_le_81: "exp (4::real) \<le> 81"
proof -
  have "exp (4::real) = exp (of_nat 4 * 1)"
    by simp
  also have "\<dots> = exp (1::real) ^ 4"
    by (rule exp_of_nat_mult)
  also have "\<dots> \<le> 3 ^ 4"
    by (rule power_mono) (simp_all add: exp_le)
  finally show ?thesis
    by simp
qed

subsection \<open>Bounds on the exponential by repeated squaring\<close>


lemma sq_step:
  fixes r a r' :: real
  assumes "r \<le> a ^ m" and "0 \<le> r" and "r' \<le> r * r" and "n = m * 2"
  shows "r' \<le> a ^ n"
proof -
  have "r * r \<le> a ^ m * a ^ m"
    using assms(1,2) by (intro mult_mono) simp_all
  then show ?thesis
    using assms(3,4) by (simp add: power_add mult_2_right)
qed

lemma exp_4_upper:
  "exp (4::real) \<le> 5466/100"
proof -
  define A :: real where "A = 1 - 4 / of_nat 8192"
  have s0: "(2047/2048::real) \<le> A ^ 1"
    unfolding A_def by simp
  have s1: "(99902367591857/100000000000000::real) \<le> A ^ 2"
    by (rule sq_step[OF s0]) simp_all
  have s2: "(19960966100917/20000000000000::real) \<le> A ^ 4"
    by (rule sq_step[OF s1]) simp_all
  have s3: "(99610041920489/100000000000000::real) \<le> A ^ 8"
    by (rule sq_step[OF s2]) simp_all
  have s4: "(19844320902803/20000000000000::real) \<le> A ^ 16"
    by (rule sq_step[OF s3]) simp_all
  have s5: "(24612317005839/25000000000000::real) \<le> A ^ 32"
    by (rule sq_step[OF s4]) simp_all
  have s6: "(19384516748669/20000000000000::real) \<le> A ^ 64"
    by (rule sq_step[OF s5]) simp_all
  have s7: "(93939872394857/100000000000000::real) \<le> A ^ 128"
    by (rule sq_step[OF s6]) simp_all
  have s8: "(4412349812781/5000000000000::real) \<le> A ^ 256"
    by (rule sq_step[OF s7]) simp_all
  have s9: "(38937661740697/50000000000000::real) \<le> A ^ 512"
    by (rule sq_step[OF s8]) simp_all
  have s10: "(60645660073317/100000000000000::real) \<le> A ^ 1024"
    by (rule sq_step[OF s9]) simp_all
  have s11: "(36778960857283/100000000000000::real) \<le> A ^ 2048"
    by (rule sq_step[OF s10]) simp_all
  have s12: "(2705383923483/20000000000000::real) \<le> A ^ 4096"
    by (rule sq_step[OF s11]) simp_all
  have s13: "(5718048573/312500000000::real) \<le> A ^ 8192"
    by (rule sq_step[OF s12]) simp_all
  have "A ^ 8192 \<le> exp (- 4)"
    unfolding A_def by (rule exp_ge_one_minus_x_over_n_power_n) simp_all
  then have "(182977554336/10000000000000::real) \<le> exp (- 4)"
    using s13 by simp
  then have "(182977554336/10000000000000::real) * exp 4 \<le> exp (- 4) * exp 4"
    by (simp add: mult_right_mono)
  also have "exp (- 4) * exp (4::real) = 1"
    by (simp add: exp_minus)
  finally show ?thesis
    by simp
qed

lemma exp_3999_lower:
  "(544/10::real) \<le> exp (3999/1000)"
proof -
  define A :: real where "A = 1 + (3999/1000) / of_nat 4096"
  have s0: "(100097631835937/100000000000000::real) \<le> A ^ 1"
    unfolding A_def by simp
  have s1: "(100195358991627/100000000000000::real) \<le> A ^ 2"
    by (rule sq_step[OF s0]) simp_all
  have s2: "(10039109963461/10000000000000::real) \<le> A ^ 4"
    by (rule sq_step[OF s1]) simp_all
  have s3: "(100783728858461/100000000000000::real) \<le> A ^ 8"
    by (rule sq_step[OF s2]) simp_all
  have s4: "(101573600026157/100000000000000::real) \<le> A ^ 16"
    by (rule sq_step[OF s3]) simp_all
  have s5: "(103171962222737/100000000000000::real) \<le> A ^ 32"
    by (rule sq_step[OF s4]) simp_all
  have s6: "(53222268944449/50000000000000::real) \<le> A ^ 64"
    by (rule sq_step[OF s5]) simp_all
  have s7: "(11330439646381/10000000000000::real) \<le> A ^ 128"
    by (rule sq_step[OF s6]) simp_all
  have s8: "(64189431290141/50000000000000::real) \<le> A ^ 256"
    by (rule sq_step[OF s7]) simp_all
  have s9: "(164811323574069/100000000000000::real) \<le> A ^ 512"
    by (rule sq_step[OF s8]) simp_all
  have s10: "(67906930945591/25000000000000::real) \<le> A ^ 1024"
    by (rule sq_step[OF s9]) simp_all
  have s11: "(368908101635941/50000000000000::real) \<le> A ^ 2048"
    by (rule sq_step[OF s10]) simp_all
  have s12: "(108874549962107/2000000000000::real) \<le> A ^ 4096"
    by (rule sq_step[OF s11]) simp_all
  have "A ^ 4096 \<le> exp (3999/1000)"
    unfolding A_def by (rule exp_ge_one_plus_x_over_n_power_n) simp_all
  then show ?thesis
    using s12 by simp
qed

lemma exp_near_4:
  fixes t :: real
  assumes "3999/1000 \<le> t" and "t \<le> 4"
  shows "544/10 \<le> exp t" and "exp t \<le> 5466/100"
proof -
  have "exp (3999/1000) \<le> exp t"
    using assms(1) by simp
  then show "544/10 \<le> exp t"
    using exp_3999_lower by linarith
  have "exp t \<le> exp 4"
    using assms(2) by simp
  then show "exp t \<le> 5466/100"
    using exp_4_upper by linarith
qed

subsection \<open>The price function unfolded\<close>

lemma s_curve_price_Inr:
  assumes "half_adv * max v 1 \<noteq> 0"
  shows "s_curve_price c q v k half_adv =
           Inr (round_ndigits (c * (1 + 2/1000 *
             (if q > 0 then 1 / (1 + exp (- k * (of_int \<bar>q\<bar> / (half_adv * max v 1) - 1)))
              else - (1 / (1 + exp (- k * (of_int \<bar>q\<bar> / (half_adv * max v 1) - 1))))))) 4)"
  unfolding s_curve_price_def Let_def using assms by (simp only: if_False)

lemma s_curve_price_default_divisor: "(1/10) * max (v::real) 1 \<noteq> 0"
  by (simp add: max_def)

lemma s_curve_price_at_zero:
  "s_curve_price c 0 v 4 (1/10) =
     Inr (round_ndigits (c * (1 - 2/1000 * (1 / (1 + exp 4)))) 4)"
proof -
  have e: "- 4 * (of_int \<bar>0\<bar> / ((1/10) * max v 1) - 1) = (4::real)"
    by simp
  have "s_curve_price c 0 v 4 (1/10) =
          Inr (round_ndigits (c * (1 + 2/1000 * (- (1 / (1 + exp 4))))) 4)"
    unfolding s_curve_price_Inr[OF s_curve_price_default_divisor] e
    by (simp only: less_irrefl if_False)
  also have "c * (1 + 2/1000 * (- (1 / (1 + exp 4)))) =
             c * (1 - 2/1000 * (1 / (1 + exp (4::real))))"
    by (simp only: mult_minus_right diff_conv_add_uminus)
  finally show ?thesis .
qed

lemma s_curve_price_example_value:
  "s_curve_price (22713/100) 10 82000000 4 (1/10) = Inr (2271382/10000)"
proof -
  define E :: real where "E = exp (4 - 1/205000)"
  define s :: real where "s = 1 / (1 + E)"
  have t: "- 4 * (of_int \<bar>10\<bar> / ((1/10) * max 82000000 1) - 1) = (4 - 1/205000 :: real)"
    by simp
  have eq: "s_curve_price (22713/100) 10 82000000 4 (1/10) =
          Inr (round_ndigits ((22713/100) * (1 + 2/1000 * s)) 4)"
    unfolding s_def E_def s_curve_price_Inr[OF s_curve_price_default_divisor] t by simp
  have lo: "544/10 \<le> E" and hi: "E \<le> 5466/100"
    unfolding E_def by (rule exp_near_4; simp)+
  have s_lo: "1 / (1 + 5466/100) \<le> s"
    unfolding s_def using lo hi by (intro divide_left_mono) simp_all
  have s_hi: "s \<le> 1 / (1 + 544/10)"
    unfolding s_def using lo hi by (intro divide_left_mono) simp_all
  have "py_round ((22713/100) * (1 + 2/1000 * s) * 10 ^ 4) = 2271382"
    by (rule py_round_eq) (use s_lo s_hi in simp_all)
  then have "round_ndigits ((22713/100) * (1 + 2/1000 * s)) 4 = 2271382/10000"
    by (simp add: round_ndigits_def)
  then show ?thesis
    unfolding eq by simp
qed

lemma s_curve_price_default_adv_value:
  "s_curve_price 100 10 1000000 4 (1/10) = Inr (1000036/10000)"
proof -
  define E :: real where "E = exp (4 - 1/2500)"
  define s :: real where "s = 1 / (1 + E)"
  have t: "- 4 * (of_int \<bar>10\<bar> / ((1/10) * max 1000000 1) - 1) = (4 - 1/2500 :: real)"
    by simp
  have eq: "s_curve_price 100 10 1000000 4 (1/10) =
          Inr (round_ndigits (100 * (1 + 2/1000 * s)) 4)"
    unfolding s_def E_def s_curve_price_Inr[OF s_curve_price_default_divisor] t by simp
  have lo: "544/10 \<le> E" and hi: "E \<le> 5466/100"
    unfolding E_def by (rule exp_near_4; simp)+
  have s_lo: "1 / (1 + 5466/100) \<le> s"
    unfolding s_def using lo hi by (intro divide_left_mono) simp_all
  have s_hi: "s \<le> 1 / (1 + 544/10)"
    unfolding s_def using lo hi by (intro divide_left_mono) simp_all
  have "py_round (100 * (1 + 2/1000 * s) * 10 ^ 4) = 1000036"
    by (rule py_round_eq) (use s_lo s_hi in simp_all)
  then have "round_ndigits (100 * (1 + 2/1000 * s)) 4 = 1000036/10000"
    by (simp add: round_ndigits_def)
  then show ?thesis
    unfolding eq by simp
qed

subsection \<open>A zero quantity\<close>

text \<open>
  C2, as amended. With \<open>orderQty = 0\<close> and the default \<open>k\<close> and \<open>halfAdvFraction\<close>, the
  price function returns \<open>referenceClose * (1 - 0.002 / (1 + e\<^sup>4))\<close> rounded to 4 decimal
  places, for every \<open>referenceClose\<close> and \<open>adv\<close>: the participation ratio is 0, the sigmoid
  there is \<open>1 / (1 + e\<^sup>4)\<close>, about 0.018 and not 0, and a quantity of 0 is signed as a
  sale.
\<close>

theorem s_curve_price_zero_qty:
  "s_curve_price c 0 v 4 (1/10) =
     Inr (round_ndigits (c * (1 - 2/1000 * (1 / (1 + exp 4)))) 4)"
  by (rule s_curve_price_at_zero)

text \<open>
  C2 as stated fails: at \<open>referenceClose = 100\<close> the function does not return 100 rounded
  to 4 decimals. (It returns 99.9964; the proof only needs that the product is below
  99.99995, which holds as soon as \<open>e\<^sup>4 < 3999\<close>.)
\<close>

theorem s_curve_price_zero_qty_counterexample:
  "s_curve_price 100 0 1000000 4 (1/10) \<noteq> Inr (round_ndigits 100 4)"
proof -
  have r: "round_ndigits 100 4 = 100"
    using py_round_of_int[of 1000000] by (simp add: round_ndigits_def)
  define s :: real where "s = 1 / (1 + exp 4)"
  have e: "1 + exp (4::real) \<le> 82"
    using exp_4_le_81 by simp
  have pos: "0 < 1 + exp (4::real)"
    by (simp add: add_pos_pos)
  have "1 / 82 \<le> s"
    unfolding s_def using e pos by (simp add: frac_le)
  then have lt: "100 * (1 - 2/1000 * s) * 10 ^ 4 < of_int 1000000 - 1/2"
    by simp
  have "py_round (100 * (1 - 2/1000 * s) * 10 ^ 4) < 1000000"
    by (rule py_round_less[OF lt])
  then have "round_ndigits (100 * (1 - 2/1000 * s)) 4 < 100"
    by (simp add: round_ndigits_def)
  then show ?thesis
    unfolding s_curve_price_at_zero r s_def by simp
qed

subsection \<open>The sign of the impact\<close>

text \<open>
  C3, as amended. For every \<open>referenceClose \<ge> 0\<close> and every \<open>adv\<close>, \<open>k\<close> and
  \<open>halfAdvFraction\<close> for which the divisor is not zero, the function returns a price; for
  \<open>orderQty > 0\<close> it is greater than or equal to \<open>referenceClose\<close> rounded to 4 decimals,
  and for \<open>orderQty < 0\<close> it is less than or equal to \<open>referenceClose\<close> rounded to 4
  decimals.
\<close>

theorem s_curve_price_sign:
  assumes "0 \<le> c" and "half_adv * max v 1 \<noteq> 0"
  shows "\<exists>p. s_curve_price c q v k half_adv = Inr p \<and>
             (0 < q \<longrightarrow> round_ndigits c 4 \<le> p) \<and>
             (q < 0 \<longrightarrow> p \<le> round_ndigits c 4)"
proof -
  define s where "s = 1 / (1 + exp (- k * (of_int \<bar>q\<bar> / (half_adv * max v 1) - 1)))"
  have s: "0 < s"
    unfolding s_def by (rule sigmoid_pos)
  have up: "c \<le> c * (1 + 2/1000 * s)"
    using assms(1) s by (simp add: mult_le_cancel_left1)
  have down: "c * (1 + 2/1000 * (- s)) \<le> c"
    using assms(1) s by (simp add: mult_le_cancel_left2)
  have eq: "s_curve_price c q v k half_adv =
          Inr (round_ndigits (c * (1 + 2/1000 * (if q > 0 then s else - s))) 4)"
    unfolding s_def by (rule s_curve_price_Inr[OF assms(2)])
  show ?thesis
  proof (cases "0 < q")
    case True
    then show ?thesis
      unfolding eq using round_ndigits_mono[OF up, of 4] by simp
  next
    case False
    then show ?thesis
      unfolding eq using round_ndigits_mono[OF down, of 4] by simp
  qed
qed

theorem s_curve_price_sign_witness:
  "(\<exists>p. s_curve_price 100 5 1000000 4 (1/10) = Inr p \<and> round_ndigits 100 4 \<le> p) \<and>
   (\<exists>p. s_curve_price 100 (- 5) 1000000 4 (1/10) = Inr p \<and> p \<le> round_ndigits 100 4)"
  using s_curve_price_sign[of 100 "1/10" 1000000 5 4]
        s_curve_price_sign[of 100 "1/10" 1000000 "- 5" 4]
  by simp

text \<open>
  C3 as stated fails where rounding to 4 decimals outweighs the impact: a purchase of one
  share at \<open>referenceClose = 0.00004\<close> is priced at 0, below the reference. (The product
  times \<open>10\<^sup>4\<close> lies between 0.4 and 0.4008, so it rounds to 0 whatever the sigmoid's
  value in (0, 1).)
\<close>

theorem s_curve_price_sign_counterexample:
  "s_curve_price (4/100000) 1 1000000 4 (1/10) = Inr 0 \<and> \<not> (4/100000 \<le> (0::real))"
proof -
  define s :: real where
    "s = 1 / (1 + exp (- 4 * (of_int \<bar>1\<bar> / ((1/10) * max 1000000 1) - 1)))"
  have s: "0 < s" "s < 1"
    unfolding s_def by (rule sigmoid_pos, rule sigmoid_less_one)
  have eq: "s_curve_price (4/100000) 1 1000000 4 (1/10) =
          Inr (round_ndigits ((4/100000) * (1 + 2/1000 * s)) 4)"
    unfolding s_def s_curve_price_Inr[OF s_curve_price_default_divisor] by simp
  have "py_round ((4/100000) * (1 + 2/1000 * s) * 10 ^ 4) = 0"
    by (rule py_round_eq) (use s in simp_all)
  then have "round_ndigits ((4/100000) * (1 + 2/1000 * s)) 4 = 0"
    by (simp add: round_ndigits_def)
  then show ?thesis
    unfolding eq by simp
qed

subsection \<open>The example of the specification\<close>

text \<open>
  C4, as amended. The call \<open>price(close=227.13, orderQty=10, adv=82000000, k=4.0,
  halfAdvFraction=0.1)\<close> returns 227.1382, a value strictly inside the open interval
  (227.13, 227.13 + 0.02286): the order is a purchase, so the price is strictly above the
  reference close. (Before rounding, the price times \<open>10\<^sup>4\<close> is about 2271381.70, at
  distance 0.2 from the nearest rounding boundary.)
\<close>

theorem s_curve_price_example:
  "s_curve_price (22713/100) 10 82000000 4 (1/10) = Inr (2271382/10000) \<and>
   (22713/100::real) < 2271382/10000 \<and> (2271382/10000::real) < 22713/100 + 2286/100000"
  using s_curve_price_example_value by simp

text \<open>
  C4 as stated fails: the value returned is not in the open interval
  (227.13 - 0.02286, 227.13).
\<close>

theorem s_curve_price_example_counterexample:
  "s_curve_price (22713/100) 10 82000000 4 (1/10) \<notin>
     Inr ` {22713/100 - 2286/100000 <..< 22713/100}"
proof -
  have "s_curve_price (22713/100) 10 82000000 4 (1/10) = Inr (2271382/10000)"
    by (rule s_curve_price_example_value)
  then show ?thesis
    by auto
qed

section \<open>Facts about the state\<close>

subsection \<open>What each handler changes\<close>

lemma ack_ACKED: "ACKED_REQUESTS (fst (ack st resp)) = (ACKED_REQUESTS st)(requestId resp \<mapsto> True)"
  by (simp add: ack_def Let_def)

lemma ack_REBALANCE_RESULTS: "REBALANCE_RESULTS (fst (ack st resp)) = REBALANCE_RESULTS st"
  by (simp add: ack_def Let_def)

lemma rebalance_ACKED: "ACKED_REQUESTS (fst (rebalance st clk req key)) = ACKED_REQUESTS st"
  by (simp add: rebalance_def Let_def split: option.splits sum.splits)

lemma ingest_upload_ACKED:
  "ACKED_REQUESTS (fst (ingest_upload st up as_of sid key stamp)) = ACKED_REQUESTS st"
  by (simp add: ingest_upload_def Let_def split: option.splits sum.splits prod.splits)

lemma ingest_upload_REBALANCE_RESULTS:
  "REBALANCE_RESULTS (fst (ingest_upload st up as_of sid key stamp)) = REBALANCE_RESULTS st"
  by (simp add: ingest_upload_def Let_def split: option.splits sum.splits prod.splits)

lemma step_ACKED:
  "ACKED_REQUESTS (step st c) =
     (case c of Ack resp \<Rightarrow> (ACKED_REQUESTS st)(requestId resp \<mapsto> True)
      | _ \<Rightarrow> ACKED_REQUESTS st)"
  by (cases c) (simp_all add: ack_ACKED rebalance_ACKED ingest_upload_ACKED)

subsection \<open>Histories\<close>

lemma run_Nil: "run st [] = st"
  by (simp add: run_def)

lemma run_snoc: "run st (cs @ [c]) = step (run st cs) c"
  by (simp add: run_def)

lemma run_Cons: "run st (c # cs) = run (step st c) cs"
  by (simp add: run_def)

lemma acked_ids_snoc:
  "acked_ids (cs @ [c]) = acked_ids cs @ (case c of Ack resp \<Rightarrow> [requestId resp] | _ \<Rightarrow> [])"
  by (induction cs rule: acked_ids.induct) (auto split: call.splits)

lemma run_ACKED:
  "ACKED_REQUESTS (run init_state cs) rid = (if rid \<in> set (acked_ids cs) then Some True else None)"
proof (induction cs rule: rev_induct)
  case Nil
  then show ?case by (simp add: run_Nil init_state_def)
next
  case (snoc c cs)
  then show ?case
    by (cases c) (simp_all add: run_snoc step_ACKED acked_ids_snoc del: step.simps)
qed

subsection \<open>Acknowledgements\<close>

text \<open>
  C7. After any history of calls since the process started, \<open>ack\<close> answers
  \<open>duplicate = true\<close> exactly when an earlier \<open>ack\<close> of that history carried the same
  \<open>requestId\<close>. So the first acknowledgement of a \<open>requestId\<close> answers \<open>false\<close> and
  every later one answers \<open>true\<close>, whatever calls lie in between, and for any
  \<open>requestId\<close>: the response acknowledged is an arbitrary one, not one that a rebalance
  has produced.
\<close>

theorem ack_duplicate:
  "duplicate (snd (ack (run init_state cs) resp)) = (requestId resp \<in> set (acked_ids cs))"
  by (simp add: ack_def Let_def run_ACKED)

theorem ack_duplicate_witness:
  "duplicate (snd (ack (run init_state []) example_response)) = False \<and>
   duplicate (snd (ack (run init_state
       [Ack example_response, example_ingest [bar_without_adv], Ack example_response])
     example_response)) = True"
  using ack_duplicate[of "[]" example_response]
    ack_duplicate[of "[Ack example_response, example_ingest [bar_without_adv], Ack example_response]"
      example_response]
  by (simp add: example_ingest_def)

section \<open>Facts about rebalance\<close>

subsection \<open>The stored results\<close>

lemma rebalance_hit:
  "k \<noteq> [] \<Longrightarrow> REBALANCE_RESULTS st k = Some r \<Longrightarrow>
   rebalance st clk req (Some k) = (st, Inr r)"
  by (simp add: rebalance_def cached_result_def)

lemma rebalance_keeps_stored:
  "REBALANCE_RESULTS st k = Some r \<Longrightarrow>
   REBALANCE_RESULTS (fst (rebalance st clk req key)) k = Some r"
  by (auto simp add: rebalance_def cached_result_def Let_def split: option.splits sum.splits)

lemma rebalance_stores:
  "k \<noteq> [] \<Longrightarrow> rebalance st clk req (Some k) = (st1, Inr r) \<Longrightarrow>
   REBALANCE_RESULTS st1 k = Some r"
  by (auto simp add: rebalance_def cached_result_def Let_def split: option.splits sum.splits)

lemma rebalance_no_empty_key:
  "REBALANCE_RESULTS st [] = None \<Longrightarrow>
   REBALANCE_RESULTS (fst (rebalance st clk req key)) [] = None"
  by (auto simp add: rebalance_def cached_result_def Let_def split: option.splits sum.splits)

lemma step_keeps_stored:
  "REBALANCE_RESULTS st k = Some r \<Longrightarrow> REBALANCE_RESULTS (step st c) k = Some r"
  by (cases c) (simp_all add: rebalance_keeps_stored ingest_upload_REBALANCE_RESULTS ack_REBALANCE_RESULTS)

lemma run_keeps_stored:
  "REBALANCE_RESULTS st k = Some r \<Longrightarrow> REBALANCE_RESULTS (run st cs) k = Some r"
  by (induction cs arbitrary: st) (simp_all add: run_Nil run_Cons step_keeps_stored del: step.simps)

lemma step_no_empty_key:
  "REBALANCE_RESULTS st [] = None \<Longrightarrow> REBALANCE_RESULTS (step st c) [] = None"
  by (cases c) (simp_all add: rebalance_no_empty_key ingest_upload_REBALANCE_RESULTS ack_REBALANCE_RESULTS)

lemma run_no_empty_key: "REBALANCE_RESULTS (run init_state cs) [] = None"
proof (induction cs rule: rev_induct)
  case Nil
  then show ?case by (simp add: run_Nil init_state_def)
next
  case (snoc c cs)
  then show ?case
    by (simp add: run_snoc step_no_empty_key del: step.simps)
qed

text \<open>
  C1. In any state the process can reach, a rebalance request whose idempotency key is
  present in \<open>REBALANCE_RESULTS\<close> returns the stored response and leaves the state as it
  is, whatever the request and the clock are. In particular, when a request with a
  non-empty key has returned a response, any request with that key returns the same
  response after any further calls, uploads that replace the fixtures among them. (An
  empty key is never stored, and a call that raises stores nothing.)
\<close>

theorem rebalance_idempotent:
  "(REBALANCE_RESULTS (run init_state cs) key = Some r \<longrightarrow>
      rebalance (run init_state cs) clk req (Some key) = (run init_state cs, Inr r)) \<and>
   (key \<noteq> [] \<and> rebalance (run init_state cs) clk req (Some key) = (st1, Inr r) \<longrightarrow>
      rebalance (run st1 cs') clk' req' (Some key) = (run st1 cs', Inr r))"
proof (intro conjI impI)
  assume stored: "REBALANCE_RESULTS (run init_state cs) key = Some r"
  then have "key \<noteq> []"
    using run_no_empty_key[of cs] by auto
  then show "rebalance (run init_state cs) clk req (Some key) = (run init_state cs, Inr r)"
    using stored by (rule rebalance_hit)
next
  assume a: "key \<noteq> [] \<and> rebalance (run init_state cs) clk req (Some key) = (st1, Inr r)"
  then have "REBALANCE_RESULTS st1 key = Some r"
    using rebalance_stores by blast
  then have "REBALANCE_RESULTS (run st1 cs') key = Some r"
    by (rule run_keeps_stored)
  with a show "rebalance (run st1 cs') clk' req' (Some key) = (run st1 cs', Inr r)"
    using rebalance_hit by blast
qed

subsection \<open>The example request on the built-in fixtures\<close>

lemma upper_AAPL: "upper ''AAPL'' = ''AAPL''"
  by (simp add: upper_def upper_char_def)

lemma str_int_example: "str_int 1756200601 = ''1756200601''"
  by (simp add: str_int_def digit_char_def)

lemma py_round_10: "py_round 10 = 10"
  using py_round_of_int[of 10] by simp

lemma resolve_price_init: "resolve_price init_state ''2025-08-25'' =
   Some \<lparr>date = ''2025-08-25'', ticker = ''AAPL'', close = 22713/100, adv = Some 82000000\<rparr>"
  by (simp add: resolve_price_def find_price_def get_prices_def init_state_def truthy_def)

lemma sentiment_tilt_init: "sentiment_tilt init_state = 56/100"
  by (simp add: sentiment_tilt_def get_sentiment_def init_state_def upper_AAPL)

lemma rebalance_computed:
  assumes "cached_result st key = None"
    and "resolve_accounts st (accountIds (filters req)) = Inr accounts"
    and "resolve_price st (asOf req) = Some pb"
    and "build_orders clk pb (qty_common req (sentiment_tilt st)) accounts 0 Map.empty [] = Inr built"
  shows "rebalance st clk req key =
           ((case key of
               None \<Rightarrow> st
             | Some k \<Rightarrow>
                 if k = [] then st
                 else st\<lparr>REBALANCE_RESULTS := (REBALANCE_RESULTS st)
                        (k \<mapsto> \<lparr>requestId = ''rb-'' @ str_int (timestamp clk), orders = built\<rparr>)\<rparr>),
            Inr \<lparr>requestId = ''rb-'' @ str_int (timestamp clk), orders = built\<rparr>)"
  using assms by (simp add: rebalance_def Let_def split: option.splits)

lemma example_rebalance:
  "rebalance init_state example_clock (example_request (Some [''C001''])) (Some ''retry-1'') =
     (init_state\<lparr>REBALANCE_RESULTS := [''retry-1'' \<mapsto> example_response]\<rparr>, Inr example_response)"
proof -
  have c: "cached_result init_state (Some ''retry-1'') = None"
    by (simp add: cached_result_def init_state_def)
  have a: "resolve_accounts init_state (accountIds (filters (example_request (Some [''C001''])))) = Inr [''C001'']"
    by (simp add: resolve_accounts_def example_request_def)
  have p: "resolve_price init_state (asOf (example_request (Some [''C001'']))) =
      Some \<lparr>date = ''2025-08-25'', ticker = ''AAPL'', close = 22713/100, adv = Some 82000000\<rparr>"
    using resolve_price_init by (simp add: example_request_def)
  have q: "qty_common (example_request (Some [''C001''])) (sentiment_tilt init_state) = 10"
    by (simp add: sentiment_tilt_init qty_common_def example_request_def py_round_10)
  have b: "build_orders example_clock \<lparr>date = ''2025-08-25'', ticker = ''AAPL'', close = 22713/100, adv = Some 82000000\<rparr>
     (qty_common (example_request (Some [''C001''])) (sentiment_tilt init_state)) [''C001''] 0 Map.empty [] = Inr (orders example_response)"
    unfolding q
    by (simp add: adv_or_default_def s_curve_price_example_value example_response_def example_clock_def)
  have e: "REBALANCE_RESULTS init_state = Map.empty"
    by (simp add: init_state_def)
  have r: "\<lparr>requestId = ''rb-'' @ str_int (timestamp example_clock), orders = orders example_response\<rparr> = example_response"
    by (simp add: str_int_example example_response_def example_clock_def)
  show ?thesis
    unfolding rebalance_computed[OF c a p b] r by (simp add: e)
qed

subsection \<open>The example upload\<close>

lemma append_rows_map_Inr: "append_rows (map Inr xs) acc = (acc @ xs, None)"
  by (induction xs arbitrary: acc) simp_all

lemma has_required_full: "has_required full_names"
  by (simp add: has_required_def required_any_def full_names_def)

lemma full_names_mem:
  "''clients.csv'' \<in> set full_names" "''holdings.csv'' \<in> set full_names"
  "''index.csv'' \<in> set full_names" "''prices.csv'' \<in> set full_names"
  "''sentiment.jsonl'' \<in> set full_names"
  by (simp_all add: full_names_def)

lemma ingest_upload_full:
  assumes "INGESTED_CHECKSUMS st (upload_checksum up) = None"
    and "archive up = Inr zf"
    and "namelist zf = full_names"
    and "clients_csv zf = Inr (map Inr cs)"
    and "holdings_csv zf = Inr (map Inr hs)"
    and "index_csv zf = Inr (map Inr ix)"
    and "prices_csv zf = Inr (map Inr ps)"
    and "sentiment_jsonl zf = map Inr ss"
  shows "fst (ingest_upload st up as_of sid None stamp) =
           st\<lparr>STUB_CLIENTS := cs, STUB_HOLDINGS := hs, STUB_INDEX := ix, STUB_PRICES := ps,
              STUB_SENTIMENT := ss,
              INGESTED_CHECKSUMS := (INGESTED_CHECKSUMS st)(upload_checksum up \<mapsto> ''v'' @ stamp)\<rparr>"
  unfolding ingest_upload_def Let_def using assms
  by (simp add: ingest_key_def has_required_full full_names_mem load_csv_def load_jsonl_def
      append_rows_map_Inr[of _ "[]", simplified])

lemma ingested_state_eq:
  "ingested_state bars =
     init_state
       \<lparr>STUB_CLIENTS := [\<lparr>clientId = ''C900'', segment = ''retail'', riskProfile = ''growth''\<rparr>],
        STUB_HOLDINGS := [],
        STUB_INDEX := [],
        STUB_PRICES := bars,
        STUB_SENTIMENT :=
          [\<lparr>senti_date = ''2025-08-26'', senti_ticker = ''AAPL'', label = ''pos'',
            score = 2, source = None\<rparr>],
        INGESTED_CHECKSUMS :=
          [''sha256:5f70bf18a086007016e948b04aed3b82103a36bea41755b6cddfaf10ace3c6ef'' \<mapsto> ''v20250826-093500'']\<rparr>"
proof -
  have e: "INGESTED_CHECKSUMS init_state = Map.empty"
    by (simp add: init_state_def)
  have "ingested_state bars =
      fst (ingest_upload init_state (example_upload full_names bars) None None None ''20250826-093500'')"
    by (simp add: ingested_state_def example_ingest_def run_def)
  also have "\<dots> = init_state
       \<lparr>STUB_CLIENTS := [\<lparr>clientId = ''C900'', segment = ''retail'', riskProfile = ''growth''\<rparr>],
        STUB_HOLDINGS := [],
        STUB_INDEX := [],
        STUB_PRICES := bars,
        STUB_SENTIMENT :=
          [\<lparr>senti_date = ''2025-08-26'', senti_ticker = ''AAPL'', label = ''pos'',
            score = 2, source = None\<rparr>],
        INGESTED_CHECKSUMS := (INGESTED_CHECKSUMS init_state)
          (upload_checksum (example_upload full_names bars) \<mapsto> ''v'' @ ''20250826-093500'')\<rparr>"
    by (rule ingest_upload_full[where
          zf = "\<lparr>namelist = full_names,
                 clients_csv = Inr [Inr \<lparr>clientId = ''C900'', segment = ''retail'', riskProfile = ''growth''\<rparr>],
                 holdings_csv = Inr [],
                 index_csv = Inr [],
                 prices_csv = Inr (map Inr bars),
                 sentiment_jsonl =
                   [Inr \<lparr>senti_date = ''2025-08-26'', senti_ticker = ''AAPL'', label = ''pos'',
                         score = 2, source = None\<rparr>]\<rparr>"])
      (simp_all add: example_upload_def e)
  finally show ?thesis
    by (simp add: e example_upload_def upload_checksum_def)
qed

subsection \<open>Accounts\<close>

text \<open>
  Listing the clients with the default cursor raises, so a request that names no account
  fails before any price is looked up; an empty list of accounts is treated as an absent
  one.
\<close>

lemma list_clients_default: "list_clients st 100 None = Inl TypeError"
  by (simp add: list_clients_def)

lemma resolve_accounts_absent:
  "accs = None \<or> accs = Some [] \<Longrightarrow> resolve_accounts st accs = Inl TypeError"
  by (auto simp add: resolve_accounts_def list_clients_default)

lemma resolve_accounts_named:
  "accs \<noteq> [] \<Longrightarrow> resolve_accounts st (Some accs) = Inr accs"
  by (simp add: resolve_accounts_def)

lemma rebalance_without_accounts:
  assumes "cached_result st key = None"
    and "accountIds (filters req) = None \<or> accountIds (filters req) = Some []"
  shows "rebalance st clk req key = (st, Inl TypeError)"
  using assms by (simp add: rebalance_def resolve_accounts_absent)

lemma rebalance_empty_list_as_absent:
  assumes "accountIds (filters req) = Some []" and "accountIds (filters req') = None"
    and "cached_result st key = None"
  shows "rebalance st clk req key = rebalance st clk req' key"
  using assms by (simp add: rebalance_without_accounts)

subsection \<open>Prices\<close>

text \<open>
  For a request that names its accounts: when the price query for the as-of date holds no
  bar of the tracked ticker, the bar used is the first bar of that ticker in the whole
  price list, and when there is none the call raises the 503 exception, whose detail
  names the ticker and the as-of date, and changes nothing.
\<close>

lemma find_None_iff_no_match: "find P xs = None \<longleftrightarrow> (\<forall>x\<in>set xs. \<not> P x)"
  by (induction xs) auto

lemma get_prices_all: "get_prices st None None = STUB_PRICES st"
  by (simp add: get_prices_def truthy_def)

lemma find_price_no_ticker:
  "\<forall>p\<in>set prices. ticker p \<noteq> t \<Longrightarrow> find_price prices t d = None"
  by (simp add: find_price_def find_None_iff_no_match)

lemma resolve_price_fallback:
  assumes "\<forall>p\<in>set (get_prices st (Some as_of) None). ticker p \<noteq> ''AAPL''"
  shows "resolve_price st as_of = find (\<lambda>p. ticker p = ''AAPL'') (STUB_PRICES st)"
proof -
  have "find_price (get_prices st (Some as_of) None) ''AAPL'' (Some as_of) = None"
    by (rule find_price_no_ticker[OF assms])
  moreover have "find_price (STUB_PRICES st) ''AAPL'' None =
      find (\<lambda>p. ticker p = ''AAPL'') (STUB_PRICES st)"
    by (simp add: find_price_def)
  ultimately show ?thesis
    by (simp add: resolve_price_def get_prices_all)
qed

lemma rebalance_price_fallback:
  assumes "cached_result st key = None"
    and "accountIds (filters req) = Some accounts" and "accounts \<noteq> []"
    and "\<forall>p\<in>set (get_prices st (Some (asOf req)) None). ticker p \<noteq> ''AAPL''"
  shows "resolve_price st (asOf req) = find (\<lambda>p. ticker p = ''AAPL'') (STUB_PRICES st)"
    and "find (\<lambda>p. ticker p = ''AAPL'') (STUB_PRICES st) = None \<Longrightarrow>
         rebalance st clk req key =
           (st, Inl (HTTPException 503
              (''No price found for AAPL (asOf='' @ asOf req @
               ''). Upload prices via /ingest/upload or configure Robo Judge.'')))"
proof -
  show r: "resolve_price st (asOf req) = find (\<lambda>p. ticker p = ''AAPL'') (STUB_PRICES st)"
    by (rule resolve_price_fallback[OF assms(4)])
  assume "find (\<lambda>p. ticker p = ''AAPL'') (STUB_PRICES st) = None"
  then have "resolve_price st (asOf req) = None"
    using r by simp
  then show "rebalance st clk req key =
           (st, Inl (HTTPException 503
              (''No price found for AAPL (asOf='' @ asOf req @
               ''). Upload prices via /ingest/upload or configure Robo Judge.'')))"
    using assms(1,2,3) by (simp add: rebalance_def resolve_accounts_named no_price_detail_def)
qed

subsection \<open>Sentiment\<close>

lemma find_filter_implied:
  "(\<And>x. P x \<Longrightarrow> Q x) \<Longrightarrow> find P (filter Q xs) = find P xs"
  by (induction xs) auto

lemma sentiment_tilt_eq:
  "sentiment_tilt st =
     (case find (\<lambda>s. senti_ticker s = ''AAPL'') (STUB_SENTIMENT st) of
        None \<Rightarrow> 0
      | Some s \<Rightarrow> (score s - 1/2) * 2)"
proof -
  have "find (\<lambda>s. senti_ticker s = ''AAPL'') (get_sentiment st (Some [''AAPL''])) =
        find (\<lambda>s. senti_ticker s = ''AAPL'') (STUB_SENTIMENT st)"
    by (simp add: get_sentiment_def upper_AAPL find_filter_implied)
  then show ?thesis
    by (simp add: sentiment_tilt_def)
qed

text \<open>
  C6, as amended. The tilt of a rebalance is \<open>(score - 0.5) * 2\<close> for the first
  sentiment record of the tracked ticker in the fixture list, and 0 when there is none; it
  lies in [-1, 1] when that record's score lies in [0, 1] (or there is no record).
\<close>

theorem sentiment_tilt_range:
  "sentiment_tilt st =
     (case find (\<lambda>s. senti_ticker s = ''AAPL'') (STUB_SENTIMENT st) of
        None \<Rightarrow> 0
      | Some s \<Rightarrow> (score s - 1/2) * 2) \<and>
   ((case find (\<lambda>s. senti_ticker s = ''AAPL'') (STUB_SENTIMENT st) of
       None \<Rightarrow> True
     | Some s \<Rightarrow> 0 \<le> score s \<and> score s \<le> 1)
    \<longrightarrow> - 1 \<le> sentiment_tilt st \<and> sentiment_tilt st \<le> 1)"
  by (simp add: sentiment_tilt_eq split: option.splits)

lemma find_AAPL_init:
  "find (\<lambda>s. senti_ticker s = ''AAPL'') (STUB_SENTIMENT init_state) =
     Some \<lparr>senti_date = ''2025-08-25'', senti_ticker = ''AAPL'', label = ''pos'',
           score = 78/100, source = Some ''https://news.example/a''\<rparr>"
  by (simp add: init_state_def)

theorem sentiment_tilt_range_witness:
  "sentiment_tilt init_state = (78/100 - 1/2) * 2 \<and>
   - 1 \<le> sentiment_tilt init_state \<and> sentiment_tilt init_state \<le> 1"
  using sentiment_tilt_range[of init_state] by (simp add: find_AAPL_init)


section \<open>Facts about ingestion\<close>

lemma has_required_iff:
  "has_required names \<longleftrightarrow>
     {''clients.csv'', ''holdings.csv'', ''index.csv'', ''sentiment.jsonl''} \<subseteq> set names \<and>
     (''prices.csv'' \<in> set names \<or> ''prices.parquet'' \<in> set names)"
  by (auto simp add: has_required_def required_any_def)

text \<open>
  C8. For an uploaded zip archive and a key not yet in the registry: when the member names
  do not include \<open>clients.csv\<close>, \<open>holdings.csv\<close>, \<open>index.csv\<close> and \<open>sentiment.jsonl\<close>
  together with \<open>prices.csv\<close> or \<open>prices.parquet\<close>, the call raises the 400 exception
  and the state after it is the state before it: every fixture list and the registry are
  unchanged.
\<close>

theorem ingest_upload_missing_members:
  assumes "archive up = Inr zf"
    and "INGESTED_CHECKSUMS st (ingest_key up idempotency_key) = None"
    and "\<not> ({''clients.csv'', ''holdings.csv'', ''index.csv'', ''sentiment.jsonl''}
               \<subseteq> set (namelist zf) \<and>
             (''prices.csv'' \<in> set (namelist zf) \<or> ''prices.parquet'' \<in> set (namelist zf)))"
  shows "ingest_upload st up as_of sourceId idempotency_key now_stamp =
           (st, Inl (HTTPException 400 (missing_members_detail (namelist zf))))"
proof -
  have "\<not> has_required (namelist zf)"
    using assms(3) by (simp only: has_required_iff not_False_eq_True)
  then show ?thesis
    using assms(1,2) by (simp add: ingest_upload_def Let_def)
qed

theorem ingest_upload_missing_members_witness:
  "ingest_upload init_state (example_upload incomplete_names []) None None (Some ''upload-7'')
     ''20250826-093500'' =
     (init_state, Inl (HTTPException 400 (missing_members_detail incomplete_names)))"
proof -
  have a: "archive (example_upload incomplete_names []) =
      Inr \<lparr>namelist = incomplete_names,
         clients_csv = Inr [Inr \<lparr>clientId = ''C900'', segment = ''retail'', riskProfile = ''growth''\<rparr>],
         holdings_csv = Inr [],
         index_csv = Inr [],
         prices_csv = Inr (map Inr []),
         sentiment_jsonl =
           [Inr \<lparr>senti_date = ''2025-08-26'', senti_ticker = ''AAPL'', label = ''pos'',
                 score = 2, source = None\<rparr>]\<rparr>"
    by (simp add: example_upload_def)
  have k: "INGESTED_CHECKSUMS init_state
             (ingest_key (example_upload incomplete_names []) (Some ''upload-7'')) = None"
    by (simp add: init_state_def)
  show ?thesis
    using ingest_upload_missing_members[OF a k, of None None "''20250826-093500''"]
    by (simp add: incomplete_names_def)
qed

lemma missing_members_detail_example:
  "missing_members_detail incomplete_names =
     ''Zip must include clients.csv, holdings.csv, index.csv, prices.csv (or prices.parquet), sentiment.jsonl. Found: ['' @
     [CHR 39] @ ''clients.csv'' @ [CHR 39] @ '', '' @ [CHR 39] @ ''holdings.csv'' @ [CHR 39] @ '', '' @
     [CHR 39] @ ''index.csv'' @ [CHR 39] @ '', '' @ [CHR 39] @ ''prices.csv'' @ [CHR 39] @ '']''"
  by (simp add: missing_members_detail_def incomplete_names_def repr_names_def sorted_names_def)

section \<open>Facts about the orders\<close>

subsection \<open>Order construction\<close>

lemma s_curve_price_default_Inr:
  "\<exists>p. s_curve_price c q v 4 (1/10) = Inr p"
  by (simp add: s_curve_price_Inr[OF s_curve_price_default_divisor])

lemma build_orders_shared_price:
  assumes "s_curve_price (close pb) q (adv_or_default pb) 4 (1/10) = Inr p"
    and "bucket (''AAPL@'' @ minute_bucket clk) = None \<or>
         bucket (''AAPL@'' @ minute_bucket clk) = Some p"
  shows "\<exists>built. build_orders clk pb q accs i bucket acc_orders = Inr (acc_orders @ built) \<and>
           map accountId built = accs \<and>
           (\<forall>x\<in>set built. execPrice x = p \<and> qty x = q \<and> side x = ''BUY'' \<and>
                             order_ticker x = ''AAPL'')"
  using assms(2)
proof (induction accs arbitrary: i bucket acc_orders)
  case Nil
  then show ?case by simp
next
  case (Cons a accs)
  let ?key = "''AAPL@'' @ minute_bucket clk"
  let ?new = "\<lparr>accountId = a, order_ticker = ''AAPL'', side = ''BUY'', qty = q,
             execPrice = p, ts = now_iso clk i\<rparr>"
  obtain bucket' where b': "bucket' ?key = None \<or> bucket' ?key = Some p"
    and step: "build_orders clk pb q (a # accs) i bucket acc_orders =
               build_orders clk pb q accs (Suc i) bucket' (acc_orders @ [?new])"
  proof (cases "bucket ?key")
    case None
    show ?thesis
      by (rule that[of "bucket(?key \<mapsto> p)"]) (use None assms(1) in \<open>simp_all add: Let_def\<close>)
  next
    case (Some p')
    then have "p' = p" using Cons.prems by simp
    show ?thesis
      by (rule that[of bucket]) (use Some \<open>p' = p\<close> in \<open>simp_all add: Let_def\<close>)
  qed
  from Cons.IH[of bucket' "Suc i" "acc_orders @ [?new]"] b'
  obtain built where built:
      "build_orders clk pb q accs (Suc i) bucket' (acc_orders @ [?new]) = Inr ((acc_orders @ [?new]) @ built)"
      "map accountId built = accs"
      "\<forall>x\<in>set built. execPrice x = p \<and> qty x = q \<and> side x = ''BUY'' \<and> order_ticker x = ''AAPL''"
    by blast
  show ?case
  proof (rule exI[of _ "?new # built"], intro conjI)
    show "build_orders clk pb q (a # accs) i bucket acc_orders = Inr (acc_orders @ ?new # built)"
      unfolding step built(1) by simp
    show "map accountId (?new # built) = a # accs"
      by (simp add: built(2))
    show "\<forall>x\<in>set (?new # built). execPrice x = p \<and> qty x = q \<and> side x = ''BUY'' \<and>
                             order_ticker x = ''AAPL''"
      using built(3) by simp
  qed
qed

lemma adv_or_default_absent:
  "adv pb = None \<or> adv pb = Some 0 \<Longrightarrow> adv_or_default pb = 1000000"
  by (auto simp add: adv_or_default_def)

text \<open>
  C10. For a rebalance that reaches order construction (no stored result for the key, the
  accounts and a price bar resolved): when the bar's \<open>adv\<close> is \<open>None\<close> or 0, the call
  returns one order per account, in order, and the execution price of every order is the
  value of the price function for the bar's close, the common quantity and an ADV of
  1,000,000.
\<close>

theorem rebalance_default_adv:
  assumes "cached_result st key = None"
    and "resolve_accounts st (accountIds (filters req)) = Inr accounts"
    and "resolve_price st (asOf req) = Some pb"
    and "adv pb = None \<or> adv pb = Some 0"
  shows "\<exists>p built.
           s_curve_price (close pb) (qty_common req (sentiment_tilt st)) 1000000 4 (1/10) = Inr p \<and>
           snd (rebalance st clk req key) =
             Inr \<lparr>requestId = ''rb-'' @ str_int (timestamp clk), orders = built\<rparr> \<and>
           map accountId built = accounts \<and>
           (\<forall>x\<in>set built. execPrice x = p)"
proof -
  obtain p where p: "s_curve_price (close pb) (qty_common req (sentiment_tilt st)) 1000000 4 (1/10) = Inr p"
    using s_curve_price_default_Inr by blast
  have p': "s_curve_price (close pb) (qty_common req (sentiment_tilt st)) (adv_or_default pb) 4 (1/10) = Inr p"
    using p adv_or_default_absent[OF assms(4)] by simp
  obtain built where built:
      "build_orders clk pb (qty_common req (sentiment_tilt st)) accounts 0 Map.empty [] = Inr built"
      "map accountId built = accounts"
      "\<forall>x\<in>set built. execPrice x = p"
    using build_orders_shared_price[where bucket = Map.empty and acc_orders = "[]" and i = 0
        and accs = accounts and clk = clk, OF p'] by auto
  have "snd (rebalance st clk req key) =
          Inr \<lparr>requestId = ''rb-'' @ str_int (timestamp clk), orders = built\<rparr>"
    by (simp add: rebalance_computed[OF assms(1,2,3) built(1)])
  then show ?thesis
    using p built(2,3) by blast
qed

lemma resolve_price_ingested:
  "resolve_price (ingested_state [bar_without_adv]) ''2025-08-25'' = Some bar_without_adv"
  by (simp add: ingested_state_eq resolve_price_def find_price_def get_prices_def truthy_def
      bar_without_adv_def)

lemma sentiment_tilt_ingested: "sentiment_tilt (ingested_state bars) = 3"
  by (simp add: sentiment_tilt_eq ingested_state_eq)

lemma qty_common_example: "qty_common (example_request accs) t = 10"
  by (simp add: qty_common_def example_request_def py_round_10)

theorem rebalance_default_adv_witness:
  "\<not> isl (snd (rebalance (ingested_state [bar_without_adv]) example_clock
            (example_request (Some [''C001'', ''C002''])) None)) \<and>
   requestId (projr (snd (rebalance (ingested_state [bar_without_adv]) example_clock
            (example_request (Some [''C001'', ''C002''])) None))) = ''rb-1756200601'' \<and>
   map accountId (orders (projr (snd (rebalance (ingested_state [bar_without_adv]) example_clock
            (example_request (Some [''C001'', ''C002''])) None)))) = [''C001'', ''C002''] \<and>
   map execPrice (orders (projr (snd (rebalance (ingested_state [bar_without_adv]) example_clock
            (example_request (Some [''C001'', ''C002''])) None)))) =
     [1000036/10000, 1000036/10000]"
proof -
  let ?st = "ingested_state [bar_without_adv]"
  let ?req = "example_request (Some [''C001'', ''C002''])"
  have c: "cached_result ?st None = None"
    by (simp add: cached_result_def)
  have a: "resolve_accounts ?st (accountIds (filters ?req)) = Inr [''C001'', ''C002'']"
    by (simp add: resolve_accounts_def example_request_def)
  have p: "resolve_price ?st (asOf ?req) = Some bar_without_adv"
    using resolve_price_ingested by (simp add: example_request_def)
  have v: "adv bar_without_adv = None \<or> adv bar_without_adv = Some 0"
    by (simp add: bar_without_adv_def)
  have cl: "close bar_without_adv = 100"
    by (simp add: bar_without_adv_def)
  have t: "timestamp example_clock = 1756200601"
    by (simp add: example_clock_def)
  obtain pr built where
      pr: "s_curve_price 100 10 1000000 4 (1/10) = Inr pr"
    and res: "snd (rebalance ?st example_clock ?req None) =
                Inr \<lparr>requestId = ''rb-'' @ str_int 1756200601, orders = built\<rparr>"
    and accs: "map accountId built = [''C001'', ''C002'']"
    and prices: "\<forall>x\<in>set built. execPrice x = pr"
    using rebalance_default_adv[OF c a p v, of example_clock]
    unfolding cl qty_common_example t by (elim exE conjE) (rule that; assumption)
  have pr_val: "pr = 1000036/10000"
    using pr by (simp add: s_curve_price_default_adv_value)
  obtain x1 x2 where "built = [x1, x2]"
    using accs by auto
  then have "map execPrice built = [1000036/10000, 1000036/10000]"
    using prices pr_val by simp
  then show ?thesis
    using accs by (simp add: res str_int_example)
qed

subsection \<open>A tilt outside the interval\<close>

lemma py_round_40: "py_round 40 = 40"
  using py_round_of_int[of 40] by simp

text \<open>
  C6 as stated fails: scores are not validated on ingestion. After an upload whose
  sentiment record for the tracked ticker has score 2 and whose price list holds a bar of
  that ticker, the tilt is 3, and a rebalance with \<open>sentimentWeight = 1\<close> runs to the end
  with it: its order has the quantity \<open>round(10 * (1 + 1 * 3)) = 40\<close>.
\<close>

theorem sentiment_tilt_range_counterexample:
  "sentiment_tilt (ingested_state [bar_without_adv]) = 3 \<and> \<not> (3 \<le> (1::real)) \<and>
   \<not> isl (snd (rebalance (ingested_state [bar_without_adv]) example_clock
            ((example_request (Some [''C001'']))\<lparr>sentimentWeight := 1\<rparr>) None)) \<and>
   map qty (orders (projr (snd (rebalance (ingested_state [bar_without_adv]) example_clock
            ((example_request (Some [''C001'']))\<lparr>sentimentWeight := 1\<rparr>) None)))) = [40]"
proof -
  let ?st = "ingested_state [bar_without_adv]"
  let ?req = "(example_request (Some [''C001'']))\<lparr>sentimentWeight := 1\<rparr>"
  have tilt: "sentiment_tilt ?st = 3"
    by (rule sentiment_tilt_ingested)
  have c: "cached_result ?st None = None"
    by (simp add: cached_result_def)
  have a: "resolve_accounts ?st (accountIds (filters ?req)) = Inr [''C001'']"
    by (simp add: resolve_accounts_def example_request_def)
  have p: "resolve_price ?st (asOf ?req) = Some bar_without_adv"
    using resolve_price_ingested by (simp add: example_request_def)
  have q: "qty_common ?req (sentiment_tilt ?st) = 40"
    unfolding tilt by (simp add: qty_common_def example_request_def py_round_40)
  obtain pr where pr:
    "s_curve_price (close bar_without_adv) 40 (adv_or_default bar_without_adv) 4 (1/10) = Inr pr"
    using s_curve_price_default_Inr by blast
  obtain built where built:
      "build_orders example_clock bar_without_adv 40 [''C001''] 0 Map.empty [] = Inr built"
      "map accountId built = [''C001'']"
      "\<forall>x\<in>set built. qty x = 40"
    using build_orders_shared_price[where bucket = Map.empty and acc_orders = "[]" and i = 0
        and accs = "[''C001'']" and clk = example_clock, OF pr] by auto
  have b: "build_orders example_clock bar_without_adv (qty_common ?req (sentiment_tilt ?st))
             [''C001''] 0 Map.empty [] = Inr built"
    unfolding q by (rule built(1))
  have res: "snd (rebalance ?st example_clock ?req None) =
          Inr \<lparr>requestId = ''rb-'' @ str_int (timestamp example_clock), orders = built\<rparr>"
    by (simp add: rebalance_computed[OF c a p b])
  obtain x1 where "built = [x1]"
    using built(2) by auto
  then have "map qty built = [40]"
    using built(3) by simp
  then show ?thesis
    using tilt by (simp add: res)
qed

subsection \<open>Requests that name no account\<close>

text \<open>
  C9. The claim is that a request whose \<open>filters.accountIds\<close> is the empty list gets one
  order for every known client. On the built-in fixtures, which hold four clients, the
  call raises \<open>TypeError\<close> instead and returns no order: \<open>list_clients()\<close> evaluates
  \<open>int(None)\<close>.
\<close>

theorem rebalance_empty_account_list:
  "rebalance init_state example_clock (example_request (Some [])) None =
     (init_state, Inl TypeError)"
  by (rule rebalance_without_accounts) (simp_all add: cached_result_def example_request_def)

lemma resolve_price_no_aapl:
  "resolve_price (ingested_state [bar_msft]) ''2025-08-25'' = None"
  by (simp add: ingested_state_eq resolve_price_def find_price_def get_prices_def truthy_def
      bar_msft_def)

text \<open>
  C5. The claim is that every request without a stored result, when no bar of the tracked
  ticker exists at any date, fails with the 503 exception. After an upload whose only
  price row is for another ticker, a request that names no account raises \<open>TypeError\<close>
  instead: the accounts are resolved before the price, and \<open>list_clients()\<close> raises.
  (\<open>rebalance_price_fallback\<close> above is the claimed behaviour, for requests that name
  their accounts.)
\<close>

theorem rebalance_no_price_no_accounts:
  "resolve_price (ingested_state [bar_msft]) (asOf (example_request None)) = None \<and>
   rebalance (ingested_state [bar_msft]) example_clock (example_request None) None =
     (ingested_state [bar_msft], Inl TypeError)"
proof -
  have "asOf (example_request None) = ''2025-08-25''"
    by (simp add: example_request_def)
  moreover have "rebalance (ingested_state [bar_msft]) example_clock (example_request None) None =
     (ingested_state [bar_msft], Inl TypeError)"
    by (rule rebalance_without_accounts) (simp_all add: cached_result_def example_request_def)
  ultimately show ?thesis
    using resolve_price_no_aapl by simp
qed

subsection \<open>Idempotent retries\<close>

theorem rebalance_idempotent_witness:
  "REBALANCE_RESULTS
     (run init_state [Rebalance example_clock (example_request (Some [''C001''])) (Some ''retry-1'')])
     ''retry-1'' = Some example_response \<and>
   rebalance
     (run init_state [Rebalance example_clock (example_request (Some [''C001''])) (Some ''retry-1'')])
     example_clock (example_request None) (Some ''retry-1'') =
     (run init_state [Rebalance example_clock (example_request (Some [''C001''])) (Some ''retry-1'')],
      Inr example_response) \<and>
   ''retry-1'' \<noteq> [] \<and>
   rebalance (run init_state []) example_clock (example_request (Some [''C001''])) (Some ''retry-1'') =
     (init_state\<lparr>REBALANCE_RESULTS := [''retry-1'' \<mapsto> example_response]\<rparr>, Inr example_response) \<and>
   rebalance
     (run (init_state\<lparr>REBALANCE_RESULTS := [''retry-1'' \<mapsto> example_response]\<rparr>)
        [example_ingest [bar_without_adv]])
     example_clock (example_request (Some [''C001''])) (Some ''retry-1'') =
     (run (init_state\<lparr>REBALANCE_RESULTS := [''retry-1'' \<mapsto> example_response]\<rparr>)
        [example_ingest [bar_without_adv]],
      Inr example_response)"
proof -
  let ?cs = "[Rebalance example_clock (example_request (Some [''C001''])) (Some ''retry-1'')]"
  let ?st1 = "init_state\<lparr>REBALANCE_RESULTS := [''retry-1'' \<mapsto> example_response]\<rparr>"
  have r: "run init_state ?cs = ?st1"
    by (simp add: run_def example_rebalance)
  have stored: "REBALANCE_RESULTS (run init_state ?cs) ''retry-1'' = Some example_response"
    by (simp add: r)
  have first: "rebalance (run init_state []) example_clock (example_request (Some [''C001'']))
      (Some ''retry-1'') = (?st1, Inr example_response)"
    by (simp add: run_def example_rebalance)
  have ne: "''retry-1'' \<noteq> []"
    by simp
  show ?thesis
    using rebalance_idempotent[where cs = ?cs and key = "''retry-1''" and r = example_response
        and clk = example_clock and req = "example_request None"]
      rebalance_idempotent[where cs = "[]" and key = "''retry-1''" and r = example_response
        and clk = example_clock and req = "example_request (Some [''C001''])" and ?st1.0 = ?st1
        and cs' = "[example_ingest [bar_without_adv]]" and clk' = example_clock
        and req' = "example_request (Some [''C001''])"]
      stored first ne
    by blast
qed

end
